theory Spec2Isabelle
  imports Complex_Main "HOL-Library.Word"
begin

section \<open>JavaScript numbers in exact arithmetic\<close>

text \<open>
  The network computes on JavaScript numbers. A finite number is modelled by the real
  it denotes (rounding, overflow and the sign of zero are left out); the three
  non-finite values are kept, since the program can produce them: \<open>0 / 0\<close> is
  \<open>NaN\<close>, and a read outside an array gives \<open>undefined\<close>, which every
  arithmetic operation and every comparison of this program treats as \<open>NaN\<close>.
\<close>

datatype jsnum = Num real | PInf | NInf | NaN

datatype error = TypeError | SyntaxError

type_synonym vec = "jsnum list"
type_synonym matrix = "jsnum list list"

fun jneg :: "jsnum \<Rightarrow> jsnum" where
  "jneg (Num a) = Num (- a)"
| "jneg PInf = NInf"
| "jneg NInf = PInf"
| "jneg NaN = NaN"

text \<open>\<open>a + b\<close>\<close>

fun jadd :: "jsnum \<Rightarrow> jsnum \<Rightarrow> jsnum" where
  "jadd (Num a) (Num b) = Num (a + b)"
| "jadd NaN b = NaN"
| "jadd a NaN = NaN"
| "jadd PInf NInf = NaN"
| "jadd NInf PInf = NaN"
| "jadd PInf b = PInf"
| "jadd NInf b = NInf"
| "jadd a PInf = PInf"
| "jadd a NInf = NInf"

text \<open>\<open>a - b\<close>\<close>

definition jsub :: "jsnum \<Rightarrow> jsnum \<Rightarrow> jsnum" where
  "jsub a b = jadd a (jneg b)"

text \<open>The sign of an infinite product or quotient: \<open>neg\<close> flips it.\<close>

definition inf_sign :: "bool \<Rightarrow> jsnum" where
  "inf_sign neg = (if neg then NInf else PInf)"

text \<open>\<open>a * b\<close>\<close>

fun jmul :: "jsnum \<Rightarrow> jsnum \<Rightarrow> jsnum" where
  "jmul (Num a) (Num b) = Num (a * b)"
| "jmul NaN b = NaN"
| "jmul a NaN = NaN"
| "jmul (Num a) PInf = (if a = 0 then NaN else inf_sign (a < 0))"
| "jmul (Num a) NInf = (if a = 0 then NaN else inf_sign (0 < a))"
| "jmul PInf (Num b) = (if b = 0 then NaN else inf_sign (b < 0))"
| "jmul NInf (Num b) = (if b = 0 then NaN else inf_sign (0 < b))"
| "jmul PInf PInf = PInf"
| "jmul PInf NInf = NInf"
| "jmul NInf PInf = NInf"
| "jmul NInf NInf = PInf"

text \<open>\<open>a / b\<close>; a zero divisor is the positive zero (an array length, here).\<close>

fun jdiv :: "jsnum \<Rightarrow> jsnum \<Rightarrow> jsnum" where
  "jdiv (Num a) (Num b) =
     (if b \<noteq> 0 then Num (a / b) else if a = 0 then NaN else inf_sign (a < 0))"
| "jdiv NaN b = NaN"
| "jdiv a NaN = NaN"
| "jdiv (Num a) PInf = Num 0"
| "jdiv (Num a) NInf = Num 0"
| "jdiv PInf (Num b) = inf_sign (b < 0)"
| "jdiv NInf (Num b) = inf_sign (0 \<le> b)"
| "jdiv PInf PInf = NaN"
| "jdiv PInf NInf = NaN"
| "jdiv NInf PInf = NaN"
| "jdiv NInf NInf = NaN"

text \<open>\<open>a > b\<close>: false as soon as one side is \<open>NaN\<close>.\<close>

fun jgt :: "jsnum \<Rightarrow> jsnum \<Rightarrow> bool" where
  "jgt (Num a) (Num b) = (b < a)"
| "jgt NaN b = False"
| "jgt a NaN = False"
| "jgt PInf PInf = False"
| "jgt PInf b = True"
| "jgt a NInf = (a \<noteq> NInf)"
| "jgt NInf b = False"
| "jgt (Num a) PInf = False"

text \<open>\<open>a === b\<close> on numbers: \<open>NaN\<close> is equal to nothing.\<close>

definition jseq :: "jsnum \<Rightarrow> jsnum \<Rightarrow> bool" where
  "jseq a b = (a \<noteq> NaN \<and> a = b)"

text \<open>One step of \<open>Math.max\<close>, and \<open>Math.max(...arr)\<close>, which is \<open>-Infinity\<close>
  on no argument.\<close>

definition jmax2 :: "jsnum \<Rightarrow> jsnum \<Rightarrow> jsnum" where
  "jmax2 a b = (if a = NaN \<or> b = NaN then NaN else if jgt b a then b else a)"

definition Math_max :: "vec \<Rightarrow> jsnum" where
  "Math_max arr = fold (\<lambda>x m. jmax2 m x) arr NInf"

fun Math_exp :: "jsnum \<Rightarrow> jsnum" where
  "Math_exp (Num a) = Num (exp a)"
| "Math_exp PInf = PInf"
| "Math_exp NInf = Num 0"
| "Math_exp NaN = NaN"

fun Math_log :: "jsnum \<Rightarrow> jsnum" where
  "Math_log (Num a) = (if 0 < a then Num (ln a) else if a = 0 then NInf else NaN)"
| "Math_log PInf = PInf"
| "Math_log NInf = NaN"
| "Math_log NaN = NaN"

fun Math_sqrt :: "jsnum \<Rightarrow> jsnum" where
  "Math_sqrt (Num a) = (if 0 \<le> a then Num (sqrt a) else NaN)"
| "Math_sqrt PInf = PInf"
| "Math_sqrt NInf = NaN"
| "Math_sqrt NaN = NaN"

fun Math_cos :: "jsnum \<Rightarrow> jsnum" where
  "Math_cos (Num a) = Num (cos a)"
| "Math_cos PInf = NaN"
| "Math_cos NInf = NaN"
| "Math_cos NaN = NaN"

subsection \<open>Arrays\<close>

text \<open>\<open>arr[i]\<close> read as a number: outside the array it is \<open>undefined\<close>.\<close>

definition js_get :: "vec \<Rightarrow> nat \<Rightarrow> jsnum" where
  "js_get arr i = (if i < length arr then arr ! i else NaN)"

text \<open>\<open>arr[i] = v\<close>: a write past the end extends the array, leaving holes.\<close>

definition js_set :: "vec \<Rightarrow> nat \<Rightarrow> jsnum \<Rightarrow> vec" where
  "js_set arr i v =
     (if i < length arr then arr[i := v] else arr @ replicate (i - length arr) NaN @ [v])"

section \<open>utils.js\<close>

definition relu :: "jsnum \<Rightarrow> jsnum" where
  "relu x = jmax2 (Num 0) x"

text \<open>\<open>exps.reduce((a, b) => a + b)\<close> has no initial value: it raises on the empty
  array and otherwise folds from the first element.\<close>

fun reduce_add :: "vec \<Rightarrow> error + jsnum" where
  "reduce_add [] = Inl TypeError"
| "reduce_add (x # xs) = Inr (fold (\<lambda>b a. jadd a b) xs x)"

definition softmax :: "vec \<Rightarrow> error + vec" where
  "softmax arr =
     (let mx = Math_max arr;
          exps = map (\<lambda>x. Math_exp (jsub x mx)) arr
      in case reduce_add exps of
           Inl e \<Rightarrow> Inl e
         | Inr s \<Rightarrow> Inr (map (\<lambda>x. jdiv x s) exps))"

text \<open>The body of the loop of \<open>crossEntropyLoss\<close>, at index \<open>i\<close>.\<close>

definition ce_step :: "vec \<Rightarrow> vec \<Rightarrow> nat \<Rightarrow> jsnum \<Rightarrow> jsnum" where
  "ce_step output target i loss =
     (let targetProbability = js_get target i;
          predictedProbability = js_get output i
      in if jgt predictedProbability (Num 0)
         then jsub loss (jmul targetProbability (Math_log predictedProbability))
         else loss)"

definition crossEntropyLoss :: "vec \<Rightarrow> vec \<Rightarrow> jsnum" where
  "crossEntropyLoss output target =
     fold (ce_step output target) [0..<length output] (Num 0)"

text \<open>The inner loop of \<open>forwardLayer\<close>: the weighted sum of one neuron.\<close>

definition weightedSum :: "vec \<Rightarrow> vec \<Rightarrow> jsnum" where
  "weightedSum inputActivations row =
     fold (\<lambda>inputIndex s. jadd s (jmul (js_get inputActivations inputIndex) (js_get row inputIndex)))
       [0..<length inputActivations] (Num 0)"

text \<open>The outer loop writes \<open>outputActivations[neuronIndex]\<close> for each index in turn,
  from the empty array.\<close>

definition forwardLayer :: "vec \<Rightarrow> matrix \<Rightarrow> vec" where
  "forwardLayer inputActivations layerWeights =
     fold (\<lambda>neuronIndex out. js_set out neuronIndex (weightedSum inputActivations (layerWeights ! neuronIndex)))
       [0..<length layerWeights] []"

definition createZeroMatrix :: "nat \<Rightarrow> nat \<Rightarrow> matrix" where
  "createZeroMatrix rows cols =
     fold (\<lambda>i m. m @ [replicate cols (Num 0)]) [0..<rows] []"

section \<open>images.js\<close>

text \<open>The two dataset files as \<open>fs.readFileSync\<close> finds them: \<open>None\<close> when the
  read raises (a missing or unreadable file), the bytes of the buffer otherwise.\<close>

record files =
  train_images :: "8 word list option"
  train_labels :: "8 word list option"

record image =
  index :: int
  label :: "nat option"
  pixels :: vec

text \<open>\<open>buffer[k]\<close>: a byte, or \<open>undefined\<close> outside the buffer.\<close>

definition buf_get :: "8 word list \<Rightarrow> int \<Rightarrow> nat option" where
  "buf_get buf k = (if 0 \<le> k \<and> nat k < length buf then Some (unat (buf ! nat k)) else None)"

text \<open>\<open>buffer[k] / 255\<close>\<close>

definition pixel_of :: "nat option \<Rightarrow> jsnum" where
  "pixel_of b = (case b of None \<Rightarrow> NaN | Some v \<Rightarrow> jdiv (Num (real v)) (Num 255))"

definition read_image :: "8 word list \<Rightarrow> 8 word list \<Rightarrow> int \<Rightarrow> image" where
  "read_image dataFileBuffer labelFileBuffer img =
     \<lparr>index = img,
      label = buf_get labelFileBuffer (img + 8),
      pixels = concat (map (\<lambda>y. map (\<lambda>x.
                 pixel_of (buf_get dataFileBuffer ((img * 28 * 28) + (int x + (int y * 28)) + 16)))
                 [0..<28]) [0..<28])\<rparr>"

text \<open>The loop runs \<open>image\<close> from \<open>start\<close> while \<open>image < end && image < 60000\<close>; the
  \<open>catch\<close> turns a failed read of either file into the empty array.\<close>

definition readMNIST :: "files \<Rightarrow> int \<Rightarrow> int \<Rightarrow> image list" where
  "readMNIST fs start end' =
     (case train_images fs of
        None \<Rightarrow> []
      | Some dataFileBuffer \<Rightarrow>
         (case train_labels fs of
            None \<Rightarrow> []
          | Some labelFileBuffer \<Rightarrow>
              map (read_image dataFileBuffer labelFileBuffer) [start..min end' 60000 - 1]))"

section \<open>index.js\<close>

definition learningRate :: real where
  "learningRate = 1 / 100"

definition PIXEL_MEAN :: real where
  "PIXEL_MEAN = 1307 / 10000"

definition PIXEL_STD :: real where
  "PIXEL_STD = 3081 / 10000"

definition normalizePixels :: "vec \<Rightarrow> vec" where
  "normalizePixels pixels' = map (\<lambda>pixel. jdiv (jsub pixel (Num PIXEL_MEAN)) (Num PIXEL_STD)) pixels'"

text \<open>The object \<open>{0: ..., 1: ..., 2: ...}\<close> of the three layers; the gradients have
  the same form.\<close>

record weights =
  w0 :: matrix
  w1 :: matrix
  w2 :: matrix

subsection \<open>Loops that can raise\<close>

text \<open>A loop over \<open>xs\<close> whose body may raise: the first error ends it.\<close>

fun for_each :: "'a list \<Rightarrow> ('a \<Rightarrow> 's \<Rightarrow> error + 's) \<Rightarrow> 's \<Rightarrow> error + 's" where
  "for_each [] body s = Inr s"
| "for_each (x # xs) body s =
     (case body x s of Inl e \<Rightarrow> Inl e | Inr s' \<Rightarrow> for_each xs body s')"

subsection \<open>Weight initialisation\<close>

text \<open>\<open>Math.random()\<close> is a source of draws from \<open>[0, 1)\<close>: the \<open>k\<close>-th call returns
  \<open>rnd k\<close>, and the number of calls made so far is threaded through.\<close>

definition init_entry :: "(nat \<Rightarrow> real) \<Rightarrow> jsnum \<Rightarrow> nat \<Rightarrow> jsnum" where
  "init_entry rnd std k =
     (let u1 = Num (rnd k);
          u2 = Num (rnd (Suc k));
          z = jmul (Math_sqrt (jmul (Num (- 2)) (Math_log u1)))
                   (Math_cos (jmul (jmul (Num 2) (Num pi)) u2))
      in jmul z std)"

definition init_row :: "(nat \<Rightarrow> real) \<Rightarrow> jsnum \<Rightarrow> nat \<Rightarrow> nat \<Rightarrow> vec \<times> nat" where
  "init_row rnd std numInputs k =
     fold (\<lambda>j (row, k). (js_set row j (init_entry rnd std k), k + 2)) [0..<numInputs] ([], k)"

definition initializeWeights :: "(nat \<Rightarrow> real) \<Rightarrow> nat \<Rightarrow> nat \<Rightarrow> nat \<Rightarrow> matrix \<times> nat" where
  "initializeWeights rnd numInputs numNeurons k =
     (let std = Math_sqrt (jdiv (Num 2) (Num (real numInputs)))
      in fold (\<lambda>i (weights, k). (case init_row rnd std numInputs k of
                                    (row, k') \<Rightarrow> (weights @ [row], k')))
           [0..<numNeurons] ([], k))"

text \<open>\<open>w.json\<close> as \<open>loadWeights\<close> meets it: absent, present with a text that
  \<open>JSON.parse\<close> rejects, or present with a text that parses to three matrices of
  numbers, of any shape (a document of another form is not represented).\<close>

datatype w_json = Absent | Unparseable | Parsed weights

definition loadWeights :: "(nat \<Rightarrow> real) \<Rightarrow> w_json \<Rightarrow> error + weights" where
  "loadWeights rnd file =
     (case file of
        Parsed w \<Rightarrow> Inr w
      | Unparseable \<Rightarrow> Inl SyntaxError
      | Absent \<Rightarrow>
         (case initializeWeights rnd 784 16 0 of (m0, k0) \<Rightarrow>
          case initializeWeights rnd 16 16 k0 of (m1, k1) \<Rightarrow>
          case initializeWeights rnd 16 10 k1 of (m2, k2) \<Rightarrow>
            Inr \<lparr>w0 = m0, w1 = m1, w2 = m2\<rparr>))"

subsection \<open>One batch\<close>

text \<open>What the forward pass keeps of one sample.\<close>

record trace =
  z0 :: vec
  a0 :: vec
  z1 :: vec
  a1 :: vec
  z2 :: vec
  output' :: vec

text \<open>The forward pass of \<open>run\<close>, from the normalised pixels; \<open>softmax\<close> can raise.\<close>

definition forward_pass :: "weights \<Rightarrow> vec \<Rightarrow> error + trace" where
  "forward_pass w normalizedPixels =
     (let z0' = forwardLayer normalizedPixels (w0 w);
          a0' = map relu z0';
          z1' = forwardLayer a0' (w1 w);
          a1' = map relu z1';
          z2' = forwardLayer a1' (w2 w)
      in case softmax z2' of
           Inl e \<Rightarrow> Inl e
         | Inr probs \<Rightarrow>
             Inr \<lparr>z0 = z0', a0 = a0', z1 = z1', a1 = a1', z2 = z2', output' = probs\<rparr>)"

text \<open>\<open>new Array(10).fill(0)\<close> with \<open>target[image.label] = 1\<close>; an \<open>undefined\<close> label
  sets no index.\<close>

definition one_hot :: "nat option \<Rightarrow> vec" where
  "one_hot lbl =
     (case lbl of None \<Rightarrow> replicate 10 (Num 0)
      | Some l \<Rightarrow> js_set (replicate 10 (Num 0)) l (Num 1))"

text \<open>\<open>arr.indexOf(v)\<close>: the first index holding a value \<open>===\<close> to \<open>v\<close>, or \<open>-1\<close>.\<close>

fun indexOf_from :: "vec \<Rightarrow> jsnum \<Rightarrow> nat \<Rightarrow> int" where
  "indexOf_from [] v i = - 1"
| "indexOf_from (x # xs) v i = (if jseq x v then int i else indexOf_from xs v (Suc i))"

definition indexOf :: "vec \<Rightarrow> jsnum \<Rightarrow> int" where
  "indexOf arr v = indexOf_from arr v 0"

text \<open>\<open>predictedLabel === image.label\<close>\<close>

definition label_matches :: "int \<Rightarrow> nat option \<Rightarrow> bool" where
  "label_matches predictedLabel lbl =
     (case lbl of None \<Rightarrow> False | Some l \<Rightarrow> predictedLabel = int l)"

text \<open>\<open>dz2 = output.map((prob, i) => prob - target[i])\<close>\<close>

definition output_delta :: "vec \<Rightarrow> vec \<Rightarrow> vec" where
  "output_delta probs target =
     map (\<lambda>(i, prob). jsub prob (js_get target i)) (enumerate 0 probs)"

text \<open>The inner loop of a gradient accumulation, on row \<open>i\<close>:
  \<open>weightGradients[l][i][j] += dz[i] * a[j]\<close> for \<open>j\<close> below the length of the weight row.\<close>

definition accumulate_row :: "jsnum \<Rightarrow> vec \<Rightarrow> nat \<Rightarrow> vec \<Rightarrow> vec" where
  "accumulate_row dzi a n grow =
     fold (\<lambda>j g. js_set g j (jadd (js_get g j) (jmul dzi (js_get a j)))) [0..<n] grow"

text \<open>The outer loop, over the rows of the weight matrix. The gradient matrix has a
  fixed number of rows: beyond them \<open>weightGradients[l][i]\<close> is \<open>undefined\<close> and
  indexing it raises.\<close>

definition accumulate :: "matrix \<Rightarrow> vec \<Rightarrow> vec \<Rightarrow> matrix \<Rightarrow> error + matrix" where
  "accumulate W dz a G =
     for_each [0..<length W]
       (\<lambda>i G'. if W ! i = [] then Inr G'
                else if i < length G'
                then Inr (G'[i := accumulate_row (js_get dz i) a (length (W ! i)) (G' ! i)])
                else Inl TypeError)
       G"

text \<open>\<open>da = new Array(n).fill(0)\<close>, then \<open>da[i] += W[j][i] * dz[j]\<close> for
  \<open>i < n\<close> and \<open>j < dz.length\<close>; a row \<open>W[j]\<close> that is missing raises.\<close>

definition backprop_entry :: "matrix \<Rightarrow> vec \<Rightarrow> nat \<Rightarrow> jsnum \<Rightarrow> error + jsnum" where
  "backprop_entry W dz i d =
     for_each [0..<length dz]
       (\<lambda>j s. if j < length W then Inr (jadd s (jmul (js_get (W ! j) i) (js_get dz j)))
               else Inl TypeError)
       d"

definition backprop :: "matrix \<Rightarrow> vec \<Rightarrow> nat \<Rightarrow> error + vec" where
  "backprop W dz n =
     for_each [0..<n]
       (\<lambda>i da. case backprop_entry W dz i (js_get da i) of
                  Inl e \<Rightarrow> Inl e
                | Inr d \<Rightarrow> Inr (js_set da i d))
       (replicate n (Num 0))"

text \<open>\<open>dz = da.map((grad, i) => z[i] > 0 ? grad : 0)\<close>\<close>

definition relu_mask :: "vec \<Rightarrow> vec \<Rightarrow> vec" where
  "relu_mask da z =
     map (\<lambda>(i, grad). if jgt (js_get z i) (Num 0) then grad else Num 0) (enumerate 0 da)"

text \<open>The backward pass of \<open>run\<close> for one sample: it returns the running gradients of
  the batch with the sample's contribution added.\<close>

definition backward_pass :: "weights \<Rightarrow> weights \<Rightarrow> vec \<Rightarrow> trace \<Rightarrow> vec \<Rightarrow> error + weights" where
  "backward_pass w weightGradients normalizedPixels t target =
     (let dz2 = output_delta (output' t) target in
      case accumulate (w2 w) dz2 (a1 t) (w2 weightGradients) of Inl e \<Rightarrow> Inl e | Inr g2 \<Rightarrow>
      case backprop (w2 w) dz2 (length (a1 t)) of Inl e \<Rightarrow> Inl e | Inr da1 \<Rightarrow>
      let dz1 = relu_mask da1 (z1 t) in
      case accumulate (w1 w) dz1 (a0 t) (w1 weightGradients) of Inl e \<Rightarrow> Inl e | Inr g1 \<Rightarrow>
      case backprop (w1 w) dz1 (length (a0 t)) of Inl e \<Rightarrow> Inl e | Inr da0 \<Rightarrow>
      let dz0 = relu_mask da0 (z0 t) in
      case accumulate (w0 w) dz0 normalizedPixels (w0 weightGradients) of Inl e \<Rightarrow> Inl e | Inr g0 \<Rightarrow>
      Inr \<lparr>w0 = g0, w1 = g1, w2 = g2\<rparr>)"

text \<open>The state of a batch between two samples.\<close>

record batch =
  weightGradients :: weights
  totalLoss :: jsnum
  correctPredictions :: nat

text \<open>The body of \<open>images.forEach\<close>.\<close>

definition process_image :: "weights \<Rightarrow> image \<Rightarrow> batch \<Rightarrow> error + batch" where
  "process_image w img b =
     (let target = one_hot (label img);
          normalizedPixels = normalizePixels (pixels img)
      in case forward_pass w normalizedPixels of
           Inl e \<Rightarrow> Inl e
         | Inr t \<Rightarrow>
            (let loss = jadd (totalLoss b) (crossEntropyLoss (output' t) target);
                 predictedLabel = indexOf (output' t) (Math_max (output' t));
                 correct = (if label_matches predictedLabel (label img)
                            then correctPredictions b + 1 else correctPredictions b)
             in case backward_pass w (weightGradients b) normalizedPixels t target of
                  Inl e \<Rightarrow> Inl e
                | Inr g \<Rightarrow> Inr \<lparr>weightGradients = g, totalLoss = loss, correctPredictions = correct\<rparr>))"

text \<open>The weight update: \<open>w[layer][i][j] -= learningRate * (weightGradients[layer][i][j] / batchSize)\<close>.\<close>

definition update_row :: "vec \<Rightarrow> vec \<Rightarrow> jsnum \<Rightarrow> vec" where
  "update_row wrow grow batchSize =
     fold (\<lambda>j r. js_set r j (jsub (js_get r j)
                    (jmul (Num learningRate) (jdiv (js_get grow j) batchSize))))
       [0..<length wrow] wrow"

definition update_layer :: "matrix \<Rightarrow> matrix \<Rightarrow> jsnum \<Rightarrow> error + matrix" where
  "update_layer W G batchSize =
     for_each [0..<length W]
       (\<lambda>i W'. if W' ! i = [] then Inr W'
                else if i < length G
                then Inr (W'[i := update_row (W' ! i) (G ! i) batchSize])
                else Inl TypeError)
       W"

definition update_weights :: "weights \<Rightarrow> weights \<Rightarrow> jsnum \<Rightarrow> error + weights" where
  "update_weights w g batchSize =
     (case update_layer (w0 w) (w0 g) batchSize of Inl e \<Rightarrow> Inl e | Inr m0 \<Rightarrow>
      case update_layer (w1 w) (w1 g) batchSize of Inl e \<Rightarrow> Inl e | Inr m1 \<Rightarrow>
      case update_layer (w2 w) (w2 g) batchSize of Inl e \<Rightarrow> Inl e | Inr m2 \<Rightarrow>
      Inr \<lparr>w0 = m0, w1 = m1, w2 = m2\<rparr>)"

record metrics =
  loss :: jsnum
  accuracy :: jsnum

definition zero_gradients :: weights where
  "zero_gradients =
     \<lparr>w0 = createZeroMatrix 16 784, w1 = createZeroMatrix 16 16, w2 = createZeroMatrix 10 16\<rparr>"

text \<open>\<open>run(w, position)\<close>: the updated weights (the source mutates \<open>w\<close>) and the
  metrics it returns.\<close>

definition run :: "files \<Rightarrow> weights \<Rightarrow> int \<Rightarrow> error + weights \<times> metrics" where
  "run fs w position =
     (let images = readMNIST fs (position * 10) (position * 10 + 10) in
      case for_each images (process_image w)
             \<lparr>weightGradients = zero_gradients, totalLoss = Num 0, correctPredictions = 0\<rparr> of
        Inl e \<Rightarrow> Inl e
      | Inr b \<Rightarrow>
         (let batchSize = Num (real (length images)) in
          case update_weights w (weightGradients b) batchSize of
            Inl e \<Rightarrow> Inl e
          | Inr w' \<Rightarrow>
             (let accuracy' = jmul (jdiv (Num (real (correctPredictions b))) batchSize) (Num 100)
              in Inr (w', \<lparr>loss = jdiv (totalLoss b) batchSize, accuracy = accuracy'\<rparr>))))"

section \<open>Reference formulas\<close>

text \<open>The softmax of a vector of reals in the words of the specification: subtract the
  maximum logit, exponentiate, divide by the sum of the exponentials.\<close>

definition softmax_spec :: "real list \<Rightarrow> real list" where
  "softmax_spec v =
     map (\<lambda>x. exp (x - Max (set v)) / (\<Sum>y\<leftarrow>v. exp (y - Max (set v)))) v"

text \<open>A matrix of \<open>r\<close> rows of \<open>c\<close> entries, and the three layers \<open>(784, 16)\<close>,
  \<open>(16, 16)\<close>, \<open>(16, 10)\<close> of the network.\<close>

definition has_shape :: "matrix \<Rightarrow> nat \<Rightarrow> nat \<Rightarrow> bool" where
  "has_shape M r c = (length M = r \<and> (\<forall>row \<in> set M. length row = c))"

definition well_shaped :: "weights \<Rightarrow> bool" where
  "well_shaped w = (has_shape (w0 w) 16 784 \<and> has_shape (w1 w) 16 16 \<and> has_shape (w2 w) 10 16)"

section \<open>Arrays of finite numbers\<close>

lemma js_get_map_Num [simp]:
  "js_get (map Num xs) i = (if i < length xs then Num (xs ! i) else NaN)"
  by (simp add: js_get_def)

section \<open>The forward layer\<close>

lemma weightedSum_upto:
  "n \<le> length x \<Longrightarrow>
   fold (\<lambda>i s. jadd s (jmul (js_get (map Num x) i) (js_get (map Num r) i))) [0..<n] (Num 0) =
     (if n \<le> length r then Num (\<Sum>i<n. x ! i * r ! i) else NaN)"
  by (induction n) auto

lemma weightedSum_Num:
  "weightedSum (map Num x) (map Num r) =
     (if length x \<le> length r then Num (\<Sum>i<length x. x ! i * r ! i) else NaN)"
  using weightedSum_upto [of "length x" x r] by (simp add: weightedSum_def)

lemma forwardLayer_upto:
  "n \<le> length W \<Longrightarrow>
   fold (\<lambda>i out. js_set out i (f (W ! i))) [0..<n] [] = map f (take n W)"
  by (induction n) (auto simp: js_set_def take_Suc_conv_app_nth)

lemma forwardLayer_map: "forwardLayer x W = map (weightedSum x) W"
  using forwardLayer_upto [of "length W" W "weightedSum x"] by (simp add: forwardLayer_def)




section \<open>Softmax\<close>

lemma Math_max_fold_Num:
  "fold (\<lambda>x m. jmax2 m x) (map Num xs) (Num a) = Num (fold max xs a)"
  by (induction xs arbitrary: a) (auto simp: jmax2_def max_def)

lemma Math_max_Num: "v \<noteq> [] \<Longrightarrow> Math_max (map Num v) = Num (Max (set v))"
proof (cases v)
  case Nil
  assume "v \<noteq> []"
  with Nil show ?thesis by simp
next
  case (Cons x xs)
  have "Math_max (map Num v) = fold (\<lambda>x m. jmax2 m x) (map Num xs) (jmax2 NInf (Num x))"
    by (simp add: Math_max_def Cons)
  also have "jmax2 NInf (Num x) = Num x"
    by (simp add: jmax2_def)
  also have "fold (\<lambda>x m. jmax2 m x) (map Num xs) (Num x) = Num (fold max xs x)"
    by (rule Math_max_fold_Num)
  also have "fold max xs x = Max (set v)"
    unfolding Cons by (rule Max.set_eq_fold [symmetric])
  finally show ?thesis .
qed

lemma fold_jadd_Num:
  "fold (\<lambda>b a. jadd a b) (map Num xs) (Num a) = Num (a + sum_list xs)"
  by (induction xs arbitrary: a) (auto simp: add.assoc)

lemma reduce_add_Num: "xs \<noteq> [] \<Longrightarrow> reduce_add (map Num xs) = Inr (Num (sum_list xs))"
  by (cases xs) (simp_all add: fold_jadd_Num)

lemma sum_exp_pos: "v \<noteq> [] \<Longrightarrow> 0 < (\<Sum>y\<leftarrow>v. exp (y - (m::real)))"
  by (cases v) (auto intro!: add_pos_nonneg sum_list_nonneg)

lemma softmax_Num:
  assumes "v \<noteq> []"
  shows "softmax (map Num v) = Inr (map Num (softmax_spec v))"
proof -
  let ?M = "Max (set v)"
  have mx: "Math_max (map Num v) = Num ?M"
    using assms by (rule Math_max_Num)
  have exps: "map (\<lambda>x. Math_exp (jsub x (Num ?M))) (map Num v) = map Num (map (\<lambda>x. exp (x - ?M)) v)"
    by (simp add: jsub_def)
  have red: "reduce_add (map Num (map (\<lambda>x. exp (x - ?M)) v)) = Inr (Num (\<Sum>y\<leftarrow>v. exp (y - ?M)))"
    by (rule reduce_add_Num) (simp add: assms)
  have pos: "(\<Sum>y\<leftarrow>v. exp (y - ?M)) \<noteq> 0"
    using sum_exp_pos [OF assms, of ?M] by simp
  show ?thesis
    unfolding softmax_def mx Let_def exps red
    using pos by (simp add: softmax_spec_def comp_def)
qed







section \<open>Cross-entropy\<close>

lemma ce_fold:
  assumes k: "k < length p"
  shows "m \<le> length p \<Longrightarrow>
     fold (ce_step (map Num p) ((replicate (length p) (Num 0))[k := Num 1])) [0..<m] (Num 0) =
       Num (if k < m \<and> 0 < p ! k then - ln (p ! k) else 0)"
proof (induction m)
  case 0
  then show ?case by simp
next
  case (Suc m)
  then have m: "m < length p" by simp
  have t: "js_get ((replicate (length p) (Num 0))[k := Num 1]) m = Num (if m = k then 1 else 0)"
    using m k by (simp add: js_get_def nth_list_update)
  show ?case
    using Suc m by (auto simp: ce_step_def t jsub_def)
qed

lemma elem_le_sum_list:
  "\<forall>x\<in>set p. (0::real) \<le> x \<Longrightarrow> k < length p \<Longrightarrow> p ! k \<le> sum_list p"
proof (induction p arbitrary: k)
  case Nil
  then show ?case by simp
next
  case (Cons a p)
  show ?case
  proof (cases k)
    case 0
    have "0 \<le> sum_list p" using Cons.prems(1) by (simp add: sum_list_nonneg)
    then show ?thesis using 0 by simp
  next
    case (Suc j)
    then have "p ! j \<le> sum_list p" using Cons by simp
    moreover have "0 \<le> a" using Cons.prems(1) by simp
    ultimately show ?thesis using Suc by simp
  qed
qed

lemma one_hot_Some: "k < 10 \<Longrightarrow> one_hot (Some k) = (replicate 10 (Num 0))[k := Num 1]"
  by (simp add: one_hot_def js_set_def)

text \<open>
  C3. For a probability vector \<open>p\<close> (entries at least 0, of sum 1) and the one-hot
  target with its 1 at index \<open>k\<close>, the cross-entropy loss is a finite number, at least
  0; it is \<open>- ln (p ! k)\<close> when \<open>p ! k\<close> is positive, and 0 when \<open>p ! k\<close> is 0 (the term
  is skipped, nothing is raised).
\<close>

theorem crossEntropyLoss_one_hot:
  assumes "\<forall>x\<in>set p. 0 \<le> x" and "sum_list p = 1" and "k < length p"
  shows "\<exists>l. crossEntropyLoss (map Num p) ((replicate (length p) (Num 0))[k := Num 1]) = Num l
     \<and> 0 \<le> l \<and> (0 < p ! k \<longrightarrow> l = - ln (p ! k)) \<and> (p ! k = 0 \<longrightarrow> l = 0)"
proof -
  have le: "p ! k \<le> 1" using elem_le_sum_list [OF assms(1) assms(3)] assms(2) by simp
  have "crossEntropyLoss (map Num p) ((replicate (length p) (Num 0))[k := Num 1]) =
      Num (if 0 < p ! k then - ln (p ! k) else 0)"
    using ce_fold [OF assms(3), of "length p"] assms(3) by (simp add: crossEntropyLoss_def)
  moreover have "0 \<le> (if 0 < p ! k then - ln (p ! k) else 0)"
    using le by simp
  ultimately show ?thesis by auto
qed

theorem crossEntropyLoss_one_hot_witness:
  "sum_list [1 / 2, 1 / 2] = (1::real)
   \<and> crossEntropyLoss (map Num [1 / 2, 1 / 2]) [Num 1, Num 0] = Num (- ln (1 / 2))"
  using crossEntropyLoss_one_hot [of "[1 / 2, 1 / 2]" 0] by auto

section \<open>Loops\<close>

lemma for_each_inv:
  assumes "P s" and "\<And>x s. x \<in> set xs \<Longrightarrow> P s \<Longrightarrow> body x s = Inr (f x s) \<and> P (f x s)"
  shows "for_each xs body s = Inr (fold f xs s) \<and> P (fold f xs s)"
  using assms
proof (induction xs arbitrary: s)
  case Nil
  then show ?case by simp
next
  case (Cons x xs)
  have step: "body x s = Inr (f x s)" and P': "P (f x s)"
    using Cons.prems by simp_all
  have "for_each xs body (f x s) = Inr (fold f xs (f x s)) \<and> P (fold f xs (f x s))"
    by (rule Cons.IH [OF P']) (simp add: Cons.prems(2))
  then show ?case by (simp add: step)
qed

lemma fold_js_update:
  "n \<le> length g \<Longrightarrow>
   fold (\<lambda>j g'. js_set g' j (h j (js_get g' j))) [0..<n] g =
     map (\<lambda>j. if j < n then h j (g ! j) else g ! j) [0..<length g]"
proof (induction n)
  case 0
  then show ?case by (simp add: map_nth)
next
  case (Suc n)
  then have n: "n < length g" by simp
  show ?case
    using Suc n
    by (auto simp: js_set_def js_get_def intro!: nth_equalityI simp: nth_list_update)
qed

lemma fold_list_update:
  "n \<le> length G \<Longrightarrow>
   fold (\<lambda>i G'. G'[i := h i (G' ! i)]) [0..<n] G =
     map (\<lambda>i. if i < n then h i (G ! i) else G ! i) [0..<length G]"
proof (induction n)
  case 0
  then show ?case by (simp add: map_nth)
next
  case (Suc n)
  then have n: "n < length G" by simp
  show ?case
    using Suc n
    by (auto intro!: nth_equalityI simp: nth_list_update)
qed

lemma accumulate_row_eq:
  "n \<le> length grow \<Longrightarrow>
   accumulate_row d a n grow =
     map (\<lambda>j. if j < n then jadd (grow ! j) (jmul d (js_get a j)) else grow ! j) [0..<length grow]"
  unfolding accumulate_row_def
  by (rule fold_js_update [where h = "\<lambda>j x. jadd x (jmul d (js_get a j))"])

lemma accumulate_eq:
  assumes "length W \<le> length G" and "\<forall>i<length W. length (W ! i) \<le> length (G ! i)"
  shows "accumulate W dz a G =
     Inr (map (\<lambda>i. if i < length W then accumulate_row (js_get dz i) a (length (W ! i)) (G ! i) else G ! i)
            [0..<length G])"
proof -
  let ?h = "\<lambda>i row. accumulate_row (js_get dz i) a (length (W ! i)) row"
  let ?f = "\<lambda>i (G'::matrix). G'[i := ?h i (G' ! i)]"
  let ?body = "\<lambda>i (G'::matrix). if W ! i = [] then Inr G'
                else if i < length G'
                then Inr (G'[i := accumulate_row (js_get dz i) a (length (W ! i)) (G' ! i)])
                else Inl TypeError"
  have "for_each [0..<length W] ?body G = Inr (fold ?f [0..<length W] G)
      \<and> length (fold ?f [0..<length W] G) = length G"
  proof (rule for_each_inv [where P = "\<lambda>G'. length G' = length G"])
    show "length G = length G" by simp
  next
    fix i and G' :: matrix
    assume i: "i \<in> set [0..<length W]" and l: "length G' = length G"
    then have "i < length G'" using assms(1) by simp
    moreover have "W ! i = [] \<Longrightarrow> G'[i := ?h i (G' ! i)] = G'"
      by (simp add: accumulate_row_def)
    ultimately show "?body i G' = Inr (?f i G') \<and> length (?f i G') = length G"
      using l by simp
  qed
  then show ?thesis
    unfolding accumulate_def using fold_list_update [OF assms(1), of ?h] by simp
qed

lemma backprop_entry_eq:
  "length dz \<le> length W \<Longrightarrow>
   backprop_entry W dz i d =
     Inr (fold (\<lambda>j s. jadd s (jmul (js_get (W ! j) i) (js_get dz j))) [0..<length dz] d)"
  unfolding backprop_entry_def
  using for_each_inv [where P = "\<lambda>s. True" and s = d and xs = "[0..<length dz]"
      and f = "\<lambda>j s. jadd s (jmul (js_get (W ! j) i) (js_get dz j))"
      and body = "\<lambda>j s. if j < length W then Inr (jadd s (jmul (js_get (W ! j) i) (js_get dz j)))
               else Inl TypeError"]
  by simp

lemma backprop_eq:
  assumes "length dz \<le> length W"
  shows "backprop W dz n =
     Inr (map (\<lambda>i. fold (\<lambda>j s. jadd s (jmul (js_get (W ! j) i) (js_get dz j))) [0..<length dz] (Num 0))
            [0..<n])"
proof -
  let ?h = "\<lambda>i d. fold (\<lambda>j s. jadd s (jmul (js_get (W ! j) i) (js_get dz j))) [0..<length dz] d"
  let ?f = "\<lambda>i da. js_set da i (?h i (js_get da i))"
  have "for_each [0..<n]
          (\<lambda>i da. case backprop_entry W dz i (js_get da i) of Inl e \<Rightarrow> Inl e | Inr d \<Rightarrow> Inr (js_set da i d))
          (replicate n (Num 0)) = Inr (fold ?f [0..<n] (replicate n (Num 0))) \<and> True"
    by (rule for_each_inv [where P = "\<lambda>s. True"]) (simp_all add: backprop_entry_eq [OF assms])
  then show ?thesis
    unfolding backprop_def using fold_js_update [of n "replicate n (Num 0)" ?h] 
    by (auto intro!: nth_equalityI)
qed

lemma update_row_eq:
  "update_row wrow grow b =
     map (\<lambda>j. jsub (wrow ! j) (jmul (Num learningRate) (jdiv (js_get grow j) b))) [0..<length wrow]"
  unfolding update_row_def
  using fold_js_update [of "length wrow" wrow "\<lambda>j x. jsub x (jmul (Num learningRate) (jdiv (js_get grow j) b))"]
  by simp

lemma update_layer_eq:
  assumes "length W \<le> length G"
  shows "update_layer W G b = Inr (map (\<lambda>i. update_row (W ! i) (G ! i) b) [0..<length W])"
proof -
  let ?h = "\<lambda>i row. update_row row (G ! i) b"
  let ?f = "\<lambda>i (W'::matrix). W'[i := ?h i (W' ! i)]"
  let ?body = "\<lambda>i (W'::matrix). if W' ! i = [] then Inr W'
                else if i < length G
                then Inr (W'[i := update_row (W' ! i) (G ! i) b])
                else Inl TypeError"
  have "for_each [0..<length W] ?body W = Inr (fold ?f [0..<length W] W) \<and> True"
  proof (rule for_each_inv [where P = "\<lambda>W'. True"])
    show True by simp
  next
    fix i and W' :: matrix
    assume i: "i \<in> set [0..<length W]"
    then have "i < length G" using assms(1) by simp
    moreover have "W' ! i = [] \<Longrightarrow> W'[i := ?h i (W' ! i)] = W'"
      by (simp add: update_row_def) (metis list_update_id)
    ultimately show "?body i W' = Inr (?f i W') \<and> True"
      by simp
  qed
  then show ?thesis
    unfolding update_layer_def using fold_list_update [of "length W" W ?h] by simp
qed

section \<open>One sample\<close>

lemma has_shape_nth: "has_shape M r c \<Longrightarrow> i < r \<Longrightarrow> length (M ! i) = c"
  by (simp add: has_shape_def)

lemma has_shape_length: "has_shape M r c \<Longrightarrow> length M = r"
  by (simp add: has_shape_def)

lemma accumulate_shape:
  assumes W: "has_shape W r c" and G: "has_shape G r c"
  shows "accumulate W dz a G =
     Inr (map (\<lambda>i. map (\<lambda>j. jadd (G ! i ! j) (jmul (js_get dz i) (js_get a j))) [0..<c]) [0..<r])"
proof -
  have lW: "length W = r" and lG: "length G = r"
    using W G by (simp_all add: has_shape_def)
  have rows: "\<forall>i<length W. length (W ! i) \<le> length (G ! i)"
    using W G by (simp add: has_shape_def)
  have "accumulate W dz a G =
     Inr (map (\<lambda>i. if i < length W then accumulate_row (js_get dz i) a (length (W ! i)) (G ! i) else G ! i)
            [0..<length G])"
    by (rule accumulate_eq) (simp_all add: lW lG rows)
  also have "map (\<lambda>i. if i < length W then accumulate_row (js_get dz i) a (length (W ! i)) (G ! i) else G ! i)
            [0..<length G] =
       map (\<lambda>i. map (\<lambda>j. jadd (G ! i ! j) (jmul (js_get dz i) (js_get a j))) [0..<c]) [0..<r]"
    unfolding lW lG
    by (rule map_cong [OF refl])
       (simp add: accumulate_row_eq has_shape_nth [OF W] has_shape_nth [OF G])
  finally show ?thesis .
qed

lemma has_shape_map: "has_shape (map (\<lambda>i. map (f i) [0..<c]) [0..<r]) r c"
  by (auto simp: has_shape_def)

lemma softmax_length:
  "arr \<noteq> [] \<Longrightarrow> \<exists>out. softmax arr = Inr out \<and> length out = length arr"
  by (cases arr) (simp_all add: softmax_def Let_def)

lemma forward_pass_shape:
  assumes "well_shaped w"
  shows "\<exists>t. forward_pass w npx = Inr t \<and> length (z0 t) = 16 \<and> length (a0 t) = 16
     \<and> length (z1 t) = 16 \<and> length (a1 t) = 16 \<and> length (z2 t) = 10 \<and> length (output' t) = 10
     \<and> z0 t = forwardLayer npx (w0 w) \<and> a0 t = map relu (z0 t)
     \<and> z1 t = forwardLayer (a0 t) (w1 w) \<and> a1 t = map relu (z1 t)
     \<and> z2 t = forwardLayer (a1 t) (w2 w) \<and> softmax (z2 t) = Inr (output' t)"
proof -
  let ?z0 = "forwardLayer npx (w0 w)"
  let ?a0 = "map relu ?z0"
  let ?z1 = "forwardLayer ?a0 (w1 w)"
  let ?a1 = "map relu ?z1"
  let ?z2 = "forwardLayer ?a1 (w2 w)"
  have l: "length (w0 w) = 16" "length (w1 w) = 16" "length (w2 w) = 10"
    using assms by (simp_all add: well_shaped_def has_shape_def)
  have "length ?z2 = 10" by (simp add: forwardLayer_map l)
  then have "?z2 \<noteq> []" by auto
  then obtain out where out: "softmax ?z2 = Inr out" "length out = length ?z2"
    using softmax_length by blast
  have fp: "forward_pass w npx =
      Inr \<lparr>z0 = ?z0, a0 = ?a0, z1 = ?z1, a1 = ?a1, z2 = ?z2, output' = out\<rparr>"
    unfolding forward_pass_def Let_def out(1) by simp
  have len: "length ?z0 = 16" "length ?z1 = 16" "length ?z2 = 10"
    by (simp_all add: forwardLayer_map l)
  show ?thesis
    unfolding fp using out len by simp
qed

lemma length_output_delta [simp]: "length (output_delta p t) = length p"
  by (simp add: output_delta_def)

lemma nth_output_delta: "i < length p \<Longrightarrow> output_delta p t ! i = jsub (p ! i) (js_get t i)"
  by (simp add: output_delta_def nth_enumerate_eq)

lemma length_relu_mask [simp]: "length (relu_mask da z) = length da"
  by (simp add: relu_mask_def)

lemma nth_relu_mask:
  "i < length da \<Longrightarrow> relu_mask da z ! i = (if jgt (js_get z i) (Num 0) then da ! i else Num 0)"
  by (simp add: relu_mask_def nth_enumerate_eq)

lemma backward_pass_eq:
  fixes target npx :: vec
  assumes w: "well_shaped w" and g: "well_shaped g"
    and lo: "length (output' t) = 10" and l1: "length (a1 t) = 16" and l0: "length (a0 t) = 16"
  defines "dz2 \<equiv> output_delta (output' t) target"
  defines "da1 \<equiv> map (\<lambda>i. fold (\<lambda>j s. jadd s (jmul (js_get (w2 w ! j) i) (js_get dz2 j))) [0..<10] (Num 0)) [0..<16]"
  defines "dz1 \<equiv> relu_mask da1 (z1 t)"
  defines "da0 \<equiv> map (\<lambda>i. fold (\<lambda>j s. jadd s (jmul (js_get (w1 w ! j) i) (js_get dz1 j))) [0..<16] (Num 0)) [0..<16]"
  defines "dz0 \<equiv> relu_mask da0 (z0 t)"
  shows "backward_pass w g npx t target =
     Inr \<lparr>w0 = map (\<lambda>i. map (\<lambda>j. jadd (w0 g ! i ! j) (jmul (js_get dz0 i) (js_get npx j))) [0..<784]) [0..<16],
          w1 = map (\<lambda>i. map (\<lambda>j. jadd (w1 g ! i ! j) (jmul (js_get dz1 i) (js_get (a0 t) j))) [0..<16]) [0..<16],
          w2 = map (\<lambda>i. map (\<lambda>j. jadd (w2 g ! i ! j) (jmul (js_get dz2 i) (js_get (a1 t) j))) [0..<16]) [0..<10]\<rparr>"
proof -
  have s: "has_shape (w0 w) 16 784" "has_shape (w1 w) 16 16" "has_shape (w2 w) 10 16"
      "has_shape (w0 g) 16 784" "has_shape (w1 g) 16 16" "has_shape (w2 g) 10 16"
    using w g by (simp_all add: well_shaped_def)
  have ldz2: "length dz2 = 10" by (simp add: dz2_def lo)
  have acc2: "accumulate (w2 w) dz2 (a1 t) (w2 g) =
      Inr (map (\<lambda>i. map (\<lambda>j. jadd (w2 g ! i ! j) (jmul (js_get dz2 i) (js_get (a1 t) j))) [0..<16]) [0..<10])"
    by (rule accumulate_shape [OF s(3) s(6)])
  have bp2: "backprop (w2 w) dz2 (length (a1 t)) = Inr da1"
    using backprop_eq [of dz2 "w2 w" 16] has_shape_length [OF s(3)]
    by (simp add: ldz2 l1 da1_def)
  have ldz1: "length dz1 = 16" by (simp add: dz1_def da1_def)
  have acc1: "accumulate (w1 w) dz1 (a0 t) (w1 g) =
      Inr (map (\<lambda>i. map (\<lambda>j. jadd (w1 g ! i ! j) (jmul (js_get dz1 i) (js_get (a0 t) j))) [0..<16]) [0..<16])"
    by (rule accumulate_shape [OF s(2) s(5)])
  have bp1: "backprop (w1 w) dz1 (length (a0 t)) = Inr da0"
    using backprop_eq [of dz1 "w1 w" 16] has_shape_length [OF s(2)]
    by (simp add: ldz1 l0 da0_def)
  have acc0: "accumulate (w0 w) dz0 npx (w0 g) =
      Inr (map (\<lambda>i. map (\<lambda>j. jadd (w0 g ! i ! j) (jmul (js_get dz0 i) (js_get npx j))) [0..<784]) [0..<16])"
    by (rule accumulate_shape [OF s(1) s(4)])
  show ?thesis
    unfolding backward_pass_def Let_def
    unfolding dz2_def [symmetric] acc2 sum.case bp2 dz1_def [symmetric] acc1 bp1 dz0_def [symmetric] acc0
    by simp
qed

lemma createZeroMatrix_upto:
  "fold (\<lambda>i m. m @ [x]) [0..<n] [] = replicate n x"
  by (induction n) (simp_all add: replicate_append_same)

lemma createZeroMatrix_eq: "createZeroMatrix r c = replicate r (replicate c (Num 0))"
  by (simp add: createZeroMatrix_def createZeroMatrix_upto)

lemma has_shape_replicate: "has_shape (replicate r (replicate c x)) r c"
  by (simp add: has_shape_def)

lemma well_shaped_zero: "well_shaped zero_gradients"
  by (simp add: well_shaped_def zero_gradients_def createZeroMatrix_eq has_shape_replicate)

lemma for_each_pres:
  assumes "P s" and "\<And>x s. x \<in> set xs \<Longrightarrow> P s \<Longrightarrow> \<exists>s'. body x s = Inr s' \<and> P s'"
  shows "\<exists>s'. for_each xs body s = Inr s' \<and> P s'"
  using assms
proof (induction xs arbitrary: s)
  case Nil
  then show ?case by simp
next
  case (Cons x xs)
  obtain s1 where s1: "body x s = Inr s1" "P s1"
    using Cons.prems by (meson list.set_intros(1))
  have "\<exists>s'. for_each xs body s1 = Inr s' \<and> P s'"
    by (rule Cons.IH [OF s1(2)]) (simp add: Cons.prems(2))
  then show ?case by (simp add: s1)
qed

lemma process_image_shape:
  assumes w: "well_shaped w" and g: "well_shaped (weightGradients b)"
  shows "\<exists>b'. process_image w img b = Inr b' \<and> well_shaped (weightGradients b')"
proof -
  let ?npx = "normalizePixels (pixels img)"
  obtain t where t: "forward_pass w ?npx = Inr t"
    and len: "length (a0 t) = 16" "length (a1 t) = 16" "length (output' t) = 10"
    using forward_pass_shape [OF w, of ?npx] by blast
  show ?thesis
    unfolding process_image_def Let_def t sum.case
      backward_pass_eq [OF w g len(3) len(2) len(1)]
    by (simp add: well_shaped_def has_shape_map)
qed

lemma batch_shape:
  assumes "well_shaped w"
  shows "\<exists>b. for_each imgs (process_image w)
            \<lparr>weightGradients = zero_gradients, totalLoss = Num 0, correctPredictions = 0\<rparr> = Inr b
          \<and> well_shaped (weightGradients b)"
  by (rule for_each_pres [where P = "\<lambda>b. well_shaped (weightGradients b)"])
     (simp_all add: well_shaped_zero process_image_shape [OF assms])

lemma update_layer_shape:
  assumes W: "has_shape W r c" and G: "has_shape G r c"
  shows "update_layer W G n =
     Inr (map (\<lambda>i. map (\<lambda>j. jsub (W ! i ! j) (jmul (Num learningRate) (jdiv (G ! i ! j) n))) [0..<c]) [0..<r])"
proof -
  have lW: "length W = r" and lG: "length G = r"
    using W G by (simp_all add: has_shape_def)
  have "update_layer W G n = Inr (map (\<lambda>i. update_row (W ! i) (G ! i) n) [0..<length W])"
    by (rule update_layer_eq) (simp add: lW lG)
  also have "map (\<lambda>i. update_row (W ! i) (G ! i) n) [0..<length W] =
      map (\<lambda>i. map (\<lambda>j. jsub (W ! i ! j) (jmul (Num learningRate) (jdiv (G ! i ! j) n))) [0..<c]) [0..<r]"
    unfolding lW
    by (rule map_cong [OF refl])
       (simp add: update_row_eq has_shape_nth [OF W] has_shape_nth [OF G] js_get_def)
  finally show ?thesis .
qed

lemma update_weights_shape:
  assumes w: "well_shaped w" and g: "well_shaped g"
  shows "update_weights w g n =
     Inr \<lparr>w0 = map (\<lambda>i. map (\<lambda>j. jsub (w0 w ! i ! j) (jmul (Num learningRate) (jdiv (w0 g ! i ! j) n))) [0..<784]) [0..<16],
          w1 = map (\<lambda>i. map (\<lambda>j. jsub (w1 w ! i ! j) (jmul (Num learningRate) (jdiv (w1 g ! i ! j) n))) [0..<16]) [0..<16],
          w2 = map (\<lambda>i. map (\<lambda>j. jsub (w2 w ! i ! j) (jmul (Num learningRate) (jdiv (w2 g ! i ! j) n))) [0..<16]) [0..<10]\<rparr>"
proof -
  have s: "has_shape (w0 w) 16 784" "has_shape (w1 w) 16 16" "has_shape (w2 w) 10 16"
      "has_shape (w0 g) 16 784" "has_shape (w1 g) 16 16" "has_shape (w2 g) 10 16"
    using w g by (simp_all add: well_shaped_def)
  show ?thesis
    unfolding update_weights_def
      update_layer_shape [OF s(1) s(4)] update_layer_shape [OF s(2) s(5)]
      update_layer_shape [OF s(3) s(6)]
    by simp
qed

text \<open>
  C1. For every sample, with weights and running gradients of the three layer shapes,
  the forward pass returns a trace and the backward pass follows the recurrences: the
  output delta is \<open>dz2[i] = output[i] - target[i]\<close>; every gradient entry receives
  the product of its layer's delta with the layer's input activation, added to the
  entry's running value (\<open>dW2[i][j] += dz2[i] * a1[j]\<close>, \<open>dW1[i][j] += dz1[i] * a0[j]\<close>,
  \<open>dW0[i][j] += dz0[i] * normalizedPixels[j]\<close>); a hidden delta is the sum, over the
  rows of the next weight matrix, of the weight times the next delta
  (\<open>da1[j] = \<Sum>i. W2[i][j] * dz2[i]\<close>, likewise \<open>da0\<close>), masked by the derivative of ReLU
  (\<open>dz1[j] = da1[j]\<close> if \<open>z1[j] > 0\<close>, else 0, likewise \<open>dz0\<close>).
\<close>

theorem backward_pass_gradients:
  assumes w: "well_shaped w" and g: "well_shaped (weightGradients b)"
  shows "\<exists>t dz2 da1 dz1 da0 dz0 b'.
      forward_pass w (normalizePixels (pixels img)) = Inr t
    \<and> process_image w img b = Inr b'
    \<and> well_shaped (weightGradients b')
    \<and> length dz2 = 10
    \<and> (\<forall>i<10. dz2 ! i = jsub (output' t ! i) (js_get (one_hot (label img)) i))
    \<and> (\<forall>i<10. \<forall>j<16. w2 (weightGradients b') ! i ! j =
          jadd (w2 (weightGradients b) ! i ! j) (jmul (dz2 ! i) (a1 t ! j)))
    \<and> length da1 = 16
    \<and> (\<forall>j<16. da1 ! j = fold (\<lambda>i s. jadd s (jmul (w2 w ! i ! j) (dz2 ! i))) [0..<10] (Num 0))
    \<and> length dz1 = 16
    \<and> (\<forall>j<16. dz1 ! j = (if jgt (z1 t ! j) (Num 0) then da1 ! j else Num 0))
    \<and> (\<forall>i<16. \<forall>j<16. w1 (weightGradients b') ! i ! j =
          jadd (w1 (weightGradients b) ! i ! j) (jmul (dz1 ! i) (a0 t ! j)))
    \<and> length da0 = 16
    \<and> (\<forall>j<16. da0 ! j = fold (\<lambda>i s. jadd s (jmul (w1 w ! i ! j) (dz1 ! i))) [0..<16] (Num 0))
    \<and> length dz0 = 16
    \<and> (\<forall>j<16. dz0 ! j = (if jgt (z0 t ! j) (Num 0) then da0 ! j else Num 0))
    \<and> (\<forall>i<16. \<forall>j<784. w0 (weightGradients b') ! i ! j =
          jadd (w0 (weightGradients b) ! i ! j)
               (jmul (dz0 ! i) (js_get (normalizePixels (pixels img)) j)))"
proof -
  let ?npx = "normalizePixels (pixels img)"
  let ?target = "one_hot (label img)"
  let ?g = "weightGradients b"
  obtain t where t: "forward_pass w ?npx = Inr t"
    and len: "length (z0 t) = 16" "length (a0 t) = 16" "length (z1 t) = 16"
             "length (a1 t) = 16" "length (output' t) = 10"
    using forward_pass_shape [OF w, of ?npx] by blast
  define dz2 where "dz2 = output_delta (output' t) ?target"
  define da1 where "da1 = map (\<lambda>i. fold (\<lambda>j s. jadd s (jmul (js_get (w2 w ! j) i) (js_get dz2 j))) [0..<10] (Num 0)) [0..<16]"
  define dz1 where "dz1 = relu_mask da1 (z1 t)"
  define da0 where "da0 = map (\<lambda>i. fold (\<lambda>j s. jadd s (jmul (js_get (w1 w ! j) i) (js_get dz1 j))) [0..<16] (Num 0)) [0..<16]"
  define dz0 where "dz0 = relu_mask da0 (z0 t)"
  define g' where "g' =
     \<lparr>w0 = map (\<lambda>i. map (\<lambda>j. jadd (w0 ?g ! i ! j) (jmul (js_get dz0 i) (js_get ?npx j))) [0..<784]) [0..<16],
      w1 = map (\<lambda>i. map (\<lambda>j. jadd (w1 ?g ! i ! j) (jmul (js_get dz1 i) (js_get (a0 t) j))) [0..<16]) [0..<16],
      w2 = map (\<lambda>i. map (\<lambda>j. jadd (w2 ?g ! i ! j) (jmul (js_get dz2 i) (js_get (a1 t) j))) [0..<16]) [0..<10]\<rparr>"
  have bw: "backward_pass w ?g ?npx t ?target = Inr g'"
    unfolding g'_def dz0_def da0_def dz1_def da1_def dz2_def
    by (rule backward_pass_eq [OF w g len(5) len(4) len(2)])
  define b' where "b' = \<lparr>weightGradients = g',
      totalLoss = jadd (totalLoss b) (crossEntropyLoss (output' t) ?target),
      correctPredictions = (if label_matches (indexOf (output' t) (Math_max (output' t))) (label img)
                            then correctPredictions b + 1 else correctPredictions b)\<rparr>"
  have pi: "process_image w img b = Inr b'"
    by (simp add: process_image_def Let_def t bw b'_def)
  have ws: "well_shaped (weightGradients b')"
    by (simp add: b'_def g'_def well_shaped_def has_shape_map)
  have l: "length dz2 = 10" "length da1 = 16" "length dz1 = 16" "length da0 = 16" "length dz0 = 16"
    by (simp_all add: dz2_def len da1_def dz1_def da0_def dz0_def)
  have sh: "has_shape (w1 w) 16 16" "has_shape (w2 w) 10 16"
    using w by (simp_all add: well_shaped_def)
  have e2: "\<forall>i<10. dz2 ! i = jsub (output' t ! i) (js_get ?target i)"
    by (simp add: dz2_def nth_output_delta len)
  have G2: "\<forall>i<10. \<forall>j<16. w2 (weightGradients b') ! i ! j =
          jadd (w2 ?g ! i ! j) (jmul (dz2 ! i) (a1 t ! j))"
    by (simp add: b'_def g'_def js_get_def l len)
  have f2: "fold (\<lambda>i s. jadd s (jmul (js_get (w2 w ! i) j) (js_get dz2 i))) [0..<10] (Num 0) =
      fold (\<lambda>i s. jadd s (jmul (w2 w ! i ! j) (dz2 ! i))) [0..<10] (Num 0)" if "j < 16" for j
    by (rule fold_cong) (use that in \<open>simp_all add: js_get_def l has_shape_nth [OF sh(2)]\<close>)
  have a1: "\<forall>j<16. da1 ! j = fold (\<lambda>i s. jadd s (jmul (w2 w ! i ! j) (dz2 ! i))) [0..<10] (Num 0)"
    by (simp add: da1_def f2)
  have d1: "\<forall>j<16. dz1 ! j = (if jgt (z1 t ! j) (Num 0) then da1 ! j else Num 0)"
    by (simp add: dz1_def nth_relu_mask l js_get_def len)
  have G1: "\<forall>i<16. \<forall>j<16. w1 (weightGradients b') ! i ! j =
          jadd (w1 ?g ! i ! j) (jmul (dz1 ! i) (a0 t ! j))"
    by (simp add: b'_def g'_def js_get_def l len)
  have f1: "fold (\<lambda>i s. jadd s (jmul (js_get (w1 w ! i) j) (js_get dz1 i))) [0..<16] (Num 0) =
      fold (\<lambda>i s. jadd s (jmul (w1 w ! i ! j) (dz1 ! i))) [0..<16] (Num 0)" if "j < 16" for j
    by (rule fold_cong) (use that in \<open>simp_all add: js_get_def l has_shape_nth [OF sh(1)]\<close>)
  have a0: "\<forall>j<16. da0 ! j = fold (\<lambda>i s. jadd s (jmul (w1 w ! i ! j) (dz1 ! i))) [0..<16] (Num 0)"
    by (simp add: da0_def f1)
  have d0: "\<forall>j<16. dz0 ! j = (if jgt (z0 t ! j) (Num 0) then da0 ! j else Num 0)"
    by (simp add: dz0_def nth_relu_mask l js_get_def len)
  have G0: "\<forall>i<16. \<forall>j<784. w0 (weightGradients b') ! i ! j =
          jadd (w0 ?g ! i ! j) (jmul (dz0 ! i) (js_get ?npx j))"
    by (simp add: b'_def g'_def l) (simp add: js_get_def l)
  show ?thesis
    using t pi ws l e2 G2 a1 d1 G1 a0 d0 G0 by blast
qed

theorem backward_pass_gradients_witness:
  "well_shaped zero_gradients
   \<and> (\<exists>b'. process_image zero_gradients
              \<lparr>index = 0, label = Some 3, pixels = replicate 784 (Num 0)\<rparr>
              \<lparr>weightGradients = zero_gradients, totalLoss = Num 0, correctPredictions = 0\<rparr> = Inr b'
         \<and> well_shaped (weightGradients b'))"
  using backward_pass_gradients [of zero_gradients
      "\<lparr>weightGradients = zero_gradients, totalLoss = Num 0, correctPredictions = 0\<rparr>"
      "\<lparr>index = 0, label = Some 3, pixels = replicate 784 (Num 0)\<rparr>"]
    well_shaped_zero
  by auto

section \<open>The weight update\<close>

text \<open>
  C4. The weight update of \<open>run\<close> is plain stochastic gradient descent: with weights of
  the three layer shapes, the batch is processed, \<open>run\<close> returns, and every new weight
  entry of every layer is the old entry minus the learning rate \<open>0.01\<close> times the
  accumulated gradient entry divided by the batch size. Nothing but the old weights,
  the accumulated gradients and the batch size enters the update.
\<close>

theorem sgd_update:
  assumes w: "well_shaped w"
  shows "\<exists>b w' m.
      for_each (readMNIST fs (position * 10) (position * 10 + 10)) (process_image w)
        \<lparr>weightGradients = zero_gradients, totalLoss = Num 0, correctPredictions = 0\<rparr> = Inr b
    \<and> run fs w position = Inr (w', m)
    \<and> well_shaped w'
    \<and> (\<forall>i<16. \<forall>j<784. w0 w' ! i ! j =
          jsub (w0 w ! i ! j) (jmul (Num (1 / 100))
            (jdiv (w0 (weightGradients b) ! i ! j)
                  (Num (real (length (readMNIST fs (position * 10) (position * 10 + 10))))))))
    \<and> (\<forall>i<16. \<forall>j<16. w1 w' ! i ! j =
          jsub (w1 w ! i ! j) (jmul (Num (1 / 100))
            (jdiv (w1 (weightGradients b) ! i ! j)
                  (Num (real (length (readMNIST fs (position * 10) (position * 10 + 10))))))))
    \<and> (\<forall>i<10. \<forall>j<16. w2 w' ! i ! j =
          jsub (w2 w ! i ! j) (jmul (Num (1 / 100))
            (jdiv (w2 (weightGradients b) ! i ! j)
                  (Num (real (length (readMNIST fs (position * 10) (position * 10 + 10))))))))"
proof -
  let ?imgs = "readMNIST fs (position * 10) (position * 10 + 10)"
  let ?n = "Num (real (length ?imgs))"
  obtain b where b: "for_each ?imgs (process_image w)
        \<lparr>weightGradients = zero_gradients, totalLoss = Num 0, correctPredictions = 0\<rparr> = Inr b"
    and g: "well_shaped (weightGradients b)"
    using batch_shape [OF w] by blast
  let ?g = "weightGradients b"
  define w' where "w' =
     \<lparr>w0 = map (\<lambda>i. map (\<lambda>j. jsub (w0 w ! i ! j) (jmul (Num learningRate) (jdiv (w0 ?g ! i ! j) ?n))) [0..<784]) [0..<16],
      w1 = map (\<lambda>i. map (\<lambda>j. jsub (w1 w ! i ! j) (jmul (Num learningRate) (jdiv (w1 ?g ! i ! j) ?n))) [0..<16]) [0..<16],
      w2 = map (\<lambda>i. map (\<lambda>j. jsub (w2 w ! i ! j) (jmul (Num learningRate) (jdiv (w2 ?g ! i ! j) ?n))) [0..<16]) [0..<10]\<rparr>"
  have u: "update_weights w ?g ?n = Inr w'"
    unfolding w'_def by (rule update_weights_shape [OF w g])
  have r: "run fs w position =
      Inr (w', \<lparr>loss = jdiv (totalLoss b) ?n,
                 accuracy = jmul (jdiv (Num (real (correctPredictions b))) ?n) (Num 100)\<rparr>)"
    by (simp add: run_def Let_def b u)
  have ws: "well_shaped w'"
    by (simp add: w'_def well_shaped_def has_shape_map)
  have e: "\<forall>i<16. \<forall>j<784. w0 w' ! i ! j =
          jsub (w0 w ! i ! j) (jmul (Num (1 / 100)) (jdiv (w0 ?g ! i ! j) ?n))"
     "\<forall>i<16. \<forall>j<16. w1 w' ! i ! j =
          jsub (w1 w ! i ! j) (jmul (Num (1 / 100)) (jdiv (w1 ?g ! i ! j) ?n))"
     "\<forall>i<10. \<forall>j<16. w2 w' ! i ! j =
          jsub (w2 w ! i ! j) (jmul (Num (1 / 100)) (jdiv (w2 ?g ! i ! j) ?n))"
    by (simp_all add: w'_def learningRate_def)
  show ?thesis
    using b r ws e by blast
qed

theorem sgd_update_witness:
  "well_shaped zero_gradients
   \<and> (\<exists>w' m. run \<lparr>train_images = None, train_labels = None\<rparr> zero_gradients 3 = Inr (w', m)
         \<and> well_shaped w')"
  using sgd_update [of zero_gradients "\<lparr>train_images = None, train_labels = None\<rparr>" 3]
    well_shaped_zero
  by auto

section \<open>The empty batch\<close>

lemma readMNIST_missing:
  "train_images fs = None \<or> train_labels fs = None \<Longrightarrow> readMNIST fs s e = []"
  by (auto simp: readMNIST_def split: option.splits)

lemma map_const_upt: "map (\<lambda>i. c) [0..<n] = replicate n c"
  by (induction n) (simp_all add: replicate_append_same)

lemma jsub_NaN [simp]: "jsub a NaN = NaN"
  by (cases a) (simp_all add: jsub_def)

lemma update_zero_by_zero:
  "map (\<lambda>i. map (\<lambda>j. jsub (W ! i ! j)
      (jmul (Num learningRate) (jdiv (replicate r (replicate c (Num 0)) ! i ! j) (Num 0)))) [0..<c]) [0..<r] =
   replicate r (replicate c NaN)"
  by (auto intro!: nth_equalityI)

lemma run_empty:
  assumes w: "well_shaped w" and e: "readMNIST fs (position * 10) (position * 10 + 10) = []"
  shows "run fs w position =
     Inr (\<lparr>w0 = replicate 16 (replicate 784 NaN), w1 = replicate 16 (replicate 16 NaN),
            w2 = replicate 10 (replicate 16 NaN)\<rparr>,
          \<lparr>loss = NaN, accuracy = NaN\<rparr>)"
proof -
  have z: "zero_gradients = \<lparr>w0 = replicate 16 (replicate 784 (Num 0)),
      w1 = replicate 16 (replicate 16 (Num 0)), w2 = replicate 10 (replicate 16 (Num 0))\<rparr>"
    by (simp add: zero_gradients_def createZeroMatrix_eq)
  have u: "update_weights w zero_gradients (Num 0) =
     Inr \<lparr>w0 = replicate 16 (replicate 784 NaN), w1 = replicate 16 (replicate 16 NaN),
            w2 = replicate 10 (replicate 16 NaN)\<rparr>"
    unfolding update_weights_shape [OF w well_shaped_zero]
    by (simp add: z update_zero_by_zero)
  show ?thesis
    by (simp add: run_def Let_def e u)
qed

text \<open>
  C5 (as amended). When the loader returns no sample, the divisions by the batch size
  are not guarded: with weights of the three layer shapes \<open>run\<close> raises nothing and
  returns, and its loss and accuracy are both \<open>0 / 0\<close>, that is \<open>NaN\<close>.
\<close>

theorem empty_batch_unguarded:
  assumes "well_shaped w" and "readMNIST fs (position * 10) (position * 10 + 10) = []"
  shows "\<exists>w'. run fs w position = Inr (w', \<lparr>loss = NaN, accuracy = NaN\<rparr>)"
  using run_empty [OF assms] by simp

lemma well_shaped_ones:
  "well_shaped \<lparr>w0 = replicate 16 (replicate 784 (Num 1)), w1 = replicate 16 (replicate 16 (Num 1)),
        w2 = replicate 10 (replicate 16 (Num 1))\<rparr>"
  by (simp add: well_shaped_def has_shape_replicate)

theorem empty_batch_unguarded_witness:
  "well_shaped zero_gradients
   \<and> readMNIST \<lparr>train_images = None, train_labels = None\<rparr> (0 * 10) (0 * 10 + 10) = []
   \<and> (\<exists>w'. run \<lparr>train_images = None, train_labels = None\<rparr> zero_gradients 0 =
              Inr (w', \<lparr>loss = NaN, accuracy = NaN\<rparr>))"
  using empty_batch_unguarded [of zero_gradients "\<lparr>train_images = None, train_labels = None\<rparr>" 0]
    well_shaped_zero
  by (simp add: readMNIST_def)

text \<open>
  The claim C5 as stated, that the division by the batch size is guarded against zero,
  fails: with both dataset files missing the batch is empty, every gradient entry
  \<open>0\<close> is divided by the batch size \<open>0\<close>, and the update writes the resulting
  \<open>NaN\<close> over every weight.
\<close>

theorem empty_batch_division_counterexample:
  "run \<lparr>train_images = None, train_labels = None\<rparr>
       \<lparr>w0 = replicate 16 (replicate 784 (Num 1)), w1 = replicate 16 (replicate 16 (Num 1)),
        w2 = replicate 10 (replicate 16 (Num 1))\<rparr> 0 =
     Inr (\<lparr>w0 = replicate 16 (replicate 784 NaN), w1 = replicate 16 (replicate 16 NaN),
            w2 = replicate 10 (replicate 16 NaN)\<rparr>,
          \<lparr>loss = NaN, accuracy = NaN\<rparr>)"
proof -
  have "readMNIST \<lparr>train_images = None, train_labels = None\<rparr> (0 * 10) (0 * 10 + 10) = []"
    by (simp add: readMNIST_def)
  from run_empty [OF well_shaped_ones this] show ?thesis
    by simp
qed

section \<open>Loading the weights\<close>

lemma init_row_eq:
  "init_row rnd std n k = (map (\<lambda>j. init_entry rnd std (k + 2 * j)) [0..<n], k + 2 * n)"
  unfolding init_row_def
  by (induction n) (simp_all add: js_set_def)

lemma initializeWeights_upto:
  "fold (\<lambda>i (weights, k). (case init_row rnd std ni k of (row, k') \<Rightarrow> (weights @ [row], k')))
     [0..<n] ([], k) =
   (map (\<lambda>i. map (\<lambda>j. init_entry rnd std (k + 2 * (i * ni + j))) [0..<ni]) [0..<n], k + 2 * (n * ni))"
  by (induction n) (simp_all add: init_row_eq algebra_simps)

lemma initializeWeights_shape:
  "has_shape (fst (initializeWeights rnd ni nn k)) nn ni"
  by (simp add: initializeWeights_def Let_def initializeWeights_upto has_shape_map)

lemma loadWeights_Absent: "\<exists>w. loadWeights rnd Absent = Inr w \<and> well_shaped w"
proof -
  obtain m0 k0 where a: "initializeWeights rnd 784 16 0 = (m0, k0)" by (cases "initializeWeights rnd 784 16 0")
  obtain m1 k1 where b: "initializeWeights rnd 16 16 k0 = (m1, k1)" by (cases "initializeWeights rnd 16 16 k0")
  obtain m2 k2 where c: "initializeWeights rnd 16 10 k1 = (m2, k2)" by (cases "initializeWeights rnd 16 10 k1")
  have "has_shape m0 16 784" "has_shape m1 16 16" "has_shape m2 10 16"
    using initializeWeights_shape [of rnd 784 16 0] initializeWeights_shape [of rnd 16 16 k0]
      initializeWeights_shape [of rnd 16 10 k1]
    by (simp_all add: a b c)
  then show ?thesis
    by (simp add: loadWeights_def a b c well_shaped_def)
qed

text \<open>
  C6 (as amended). \<open>loadWeights\<close> validates nothing. When \<open>w.json\<close> is absent it
  returns freshly initialised weights of the three layer shapes; when the file parses,
  it returns the parsed document as it is, whatever its shape; when the file does not
  parse, the error of \<open>JSON.parse\<close> propagates.
\<close>

theorem loadWeights_unvalidated:
  "(\<exists>w. loadWeights rnd Absent = Inr w \<and> well_shaped w)
   \<and> loadWeights rnd (Parsed d) = Inr d
   \<and> loadWeights rnd Unparseable = Inl SyntaxError"
  using loadWeights_Absent [of rnd] by (simp add: loadWeights_def)

theorem loadWeights_unvalidated_witness:
  "(\<exists>w. loadWeights (\<lambda>k. 1 / 2) Absent = Inr w \<and> well_shaped w)
   \<and> loadWeights (\<lambda>k. 1 / 2) (Parsed \<lparr>w0 = [], w1 = [], w2 = []\<rparr>) = Inr \<lparr>w0 = [], w1 = [], w2 = []\<rparr>"
  using loadWeights_unvalidated [of "\<lambda>k. 1 / 2" "\<lparr>w0 = [], w1 = [], w2 = []\<rparr>"] by simp

text \<open>
  The claim C6 as stated fails: an unparseable document raises instead of yielding
  fresh weights, and a document of the wrong shape is returned unchanged.
\<close>

theorem loadWeights_validation_counterexample:
  "loadWeights (\<lambda>k. 1 / 2) Unparseable = Inl SyntaxError
   \<and> loadWeights (\<lambda>k. 1 / 2) (Parsed \<lparr>w0 = [[Num 1]], w1 = [], w2 = []\<rparr>) =
       Inr \<lparr>w0 = [[Num 1]], w1 = [], w2 = []\<rparr>
   \<and> \<not> well_shaped \<lparr>w0 = [[Num 1]], w1 = [], w2 = []\<rparr>"
  by (simp add: loadWeights_def well_shaped_def has_shape_def)

section \<open>The sample loader\<close>









section \<open>The zero network\<close>

lemma weightedSum_zero:
  "n \<le> m \<Longrightarrow> weightedSum (replicate n (Num 0)) (replicate m (Num 0)) = Num 0"
  using weightedSum_Num [of "replicate n 0" "replicate m 0"] by simp

lemma forwardLayer_zero:
  "n \<le> m \<Longrightarrow> forwardLayer (replicate n (Num 0)) (replicate r (replicate m (Num 0))) = replicate r (Num 0)"
  by (simp add: forwardLayer_map weightedSum_zero)

lemma relu_zero: "relu (Num 0) = Num 0"
  by (simp add: relu_def jmax2_def)

lemma softmax_spec_replicate: "0 < n \<Longrightarrow> softmax_spec (replicate n 0) = replicate n (1 / real n)"
  by (simp add: softmax_spec_def sum_list_replicate map_replicate_const)

lemma softmax_zero: "softmax (replicate 10 (Num 0)) = Inr (replicate 10 (Num (1 / 10)))"
  using softmax_Num [of "replicate 10 0"] by (simp add: softmax_spec_replicate)

lemma ce_uniform:
  assumes "k < 10"
  shows "crossEntropyLoss (replicate 10 (Num (1 / 10))) (one_hot (Some k)) = Num (- ln (1 / 10))"
proof -
  have "crossEntropyLoss (map Num (replicate 10 (1 / 10)))
          ((replicate (length (replicate 10 (1 / 10 :: real))) (Num 0))[k := Num 1]) =
        Num (- ln (1 / 10))"
    using ce_fold [of k "replicate 10 (1 / 10)" 10] assms
    by (simp add: crossEntropyLoss_def)
  then show ?thesis
    by (simp add: one_hot_Some [OF assms])
qed

text \<open>The value of \<open>ln 10\<close> to six decimals, from the series of the exponential at
  a tenth of the bound.\<close>

lemma exp_lower8:
  fixes x :: real
  assumes "0 \<le> x"
  shows "(\<Sum>m<8. x ^ m / fact m) \<le> exp x"
proof -
  obtain t where "exp x = (\<Sum>m<8. x ^ m / fact m) + (exp t / fact 8) * x ^ 8"
    using Maclaurin_exp_le [of x 8] by blast
  moreover have "0 \<le> (exp t / fact 8) * x ^ 8"
    using assms by simp
  ultimately show ?thesis by linarith
qed

lemma exp_upper8:
  fixes x :: real
  assumes "0 \<le> x" "x \<le> 1"
  shows "exp x \<le> (\<Sum>m<8. x ^ m / fact m) + 3 * x ^ 8 / fact 8"
proof -
  obtain t where t: "\<bar>t\<bar> \<le> \<bar>x\<bar>" "exp x = (\<Sum>m<8. x ^ m / fact m) + (exp t / fact 8) * x ^ 8"
    using Maclaurin_exp_le [of x 8] by blast
  have "t \<le> 1" using t(1) assms by linarith
  then have "exp t \<le> exp 1" by simp
  also have "\<dots> \<le> 3" by (rule exp_le)
  finally have "exp t \<le> 3" .
  then have "(exp t / fact 8) * x ^ 8 \<le> (3 / fact 8) * x ^ 8"
    by (intro mult_right_mono divide_right_mono) (use assms in simp_all)
  then show ?thesis using t(2) by simp
qed

lemma exp_series_lower: "(12589255 / 10000000 :: real) \<le> (\<Sum>m<8. (2302586 / 10000000) ^ m / fact m)"
  by (simp add: lessThan_Suc numeral_eq_Suc fact_numeral)

lemma exp_series_upper: "(\<Sum>m<8. (2302584 / 10000000) ^ m / fact m) + 3 * (2302584 / 10000000) ^ 8 / fact 8
    \<le> (12589253 / 10000000 :: real)"
  by (simp add: lessThan_Suc numeral_eq_Suc fact_numeral)

lemma ln10_upper: "ln (10::real) < 2302586 / 1000000"
proof -
  have "(12589255 / 10000000 :: real) \<le> exp (2302586 / 10000000)"
    using exp_series_lower exp_lower8 [of "2302586 / 10000000"] by linarith
  then have "(12589255 / 10000000 :: real) ^ 10 \<le> exp (2302586 / 10000000) ^ 10"
    by (intro power_mono) simp_all
  moreover have "(10::real) < (12589255 / 10000000) ^ 10"
    by (simp add: power_divide)
  moreover have "exp (2302586 / 10000000 :: real) ^ 10 = exp (2302586 / 1000000)"
    using exp_of_nat_mult [of 10 "2302586 / 10000000 :: real"] by simp
  moreover have "exp (ln (10::real)) = 10"
    by simp
  ultimately have "exp (ln (10::real)) < exp (2302586 / 1000000)"
    by linarith
  then show ?thesis by (simp only: exp_less_cancel_iff)
qed

lemma ln10_lower: "2302584 / 1000000 < ln (10::real)"
proof -
  have "exp (2302584 / 10000000) \<le> (12589253 / 10000000 :: real)"
    using exp_series_upper exp_upper8 [of "2302584 / 10000000"] by simp
  then have "exp (2302584 / 10000000) ^ 10 \<le> (12589253 / 10000000 :: real) ^ 10"
    by (intro power_mono) simp_all
  moreover have "(12589253 / 10000000) ^ 10 < (10::real)"
    by (simp add: power_divide)
  moreover have "exp (2302584 / 10000000 :: real) ^ 10 = exp (2302584 / 1000000)"
    using exp_of_nat_mult [of 10 "2302584 / 10000000 :: real"] by simp
  moreover have "exp (ln (10::real)) = 10"
    by simp
  ultimately have "exp (2302584 / 1000000) < exp (ln (10::real))"
    by linarith
  then show ?thesis by (simp only: exp_less_cancel_iff)
qed

lemma loss_uniform_approx: "\<bar>- ln (1 / 10 :: real) - 2302585 / 1000000\<bar> < 1 / 1000000"
proof -
  have "- ln (1 / 10 :: real) = ln 10"
    by (simp add: ln_div)
  then show ?thesis
    using ln10_lower ln10_upper by linarith
qed

text \<open>
  C9. With the three weight matrices zero and an all-zero normalised input, the forward
  pass gives \<open>z = 0\<close> at every layer and the uniform distribution \<open>0.1\<close> over the 10
  classes, and the cross-entropy loss of that output is \<open>- ln 0.1\<close> for every one-hot
  target, which is \<open>2.302585\<close> to within \<open>0.000001\<close>.
\<close>

theorem zero_network_uniform:
  assumes "k < 10"
  shows "forward_pass \<lparr>w0 = createZeroMatrix 16 784, w1 = createZeroMatrix 16 16, w2 = createZeroMatrix 10 16\<rparr>
           (replicate 784 (Num 0)) =
         Inr \<lparr>z0 = replicate 16 (Num 0), a0 = replicate 16 (Num 0),
              z1 = replicate 16 (Num 0), a1 = replicate 16 (Num 0),
              z2 = replicate 10 (Num 0), output' = replicate 10 (Num (1 / 10))\<rparr>
     \<and> crossEntropyLoss (replicate 10 (Num (1 / 10))) (one_hot (Some k)) = Num (- ln (1 / 10))
     \<and> \<bar>- ln (1 / 10 :: real) - 2302585 / 1000000\<bar> < 1 / 1000000"
  using loss_uniform_approx
  by (simp add: forward_pass_def Let_def createZeroMatrix_eq forwardLayer_zero relu_zero softmax_zero
        ce_uniform [OF assms])

theorem zero_network_uniform_witness:
  "(3::nat) < 10 \<and> crossEntropyLoss (replicate 10 (Num (1 / 10))) (one_hot (Some 3)) = Num (- ln (1 / 10))"
  using zero_network_uniform [of 3] by simp

end
